theory Spec2Isabelle
  imports Complex_Main "HOL-Library.Multiset" "HOL-Library.FuncSet"
begin

section \<open>Binary64 floating point, as Python's float and numpy's float64\<close>

text \<open>
  Every number of \<^verbatim>\<open>generate_report.py\<close> is an IEEE 754 binary64 value. A value is
  not-a-number, an infinity, or a finite rational; an operation computes the exact rational
  result and rounds it to the nearest binary64 value, ties to the even significand. The
  sign of a zero is not tracked: no operation of the program observes it.
\<close>

datatype float64 = Finite rat | PInf | NInf | NaN

definition pow2 :: "int \<Rightarrow> rat" where
  "pow2 e = (if 0 \<le> e then 2 ^ nat e else 1 / 2 ^ nat (- e))"

text \<open>The number of bits of a positive integer.\<close>

function bitlen :: "int \<Rightarrow> int" where
  "bitlen n = (if n \<le> 0 then 0 else 1 + bitlen (n div 2))"
  by pat_completeness auto
termination
  by (relation "measure nat") auto

declare bitlen.simps [simp del]

text \<open>
  The integer part of the binary logarithm of a positive rational \<open>a\<close>: from the bits of
  its integer part when \<open>1 \<le> a\<close>, and from those of \<open>1 / a\<close> otherwise.
\<close>

definition neg_log :: "rat \<Rightarrow> int \<Rightarrow> int" where
  "neg_log b k = (if b = pow2 k then - k else - k - 1)"

definition flog2 :: "rat \<Rightarrow> int" where
  "flog2 a = (if 1 \<le> a then bitlen \<lfloor>a\<rfloor> - 1 else neg_log (1 / a) (bitlen \<lfloor>1 / a\<rfloor> - 1))"

text \<open>Rounding to the nearest integer, a tie to the even one.\<close>

definition nearest :: "rat \<Rightarrow> int \<Rightarrow> int" where
  "nearest x f =
     (if x - of_int f < 1 / 2 then f
      else if 1 / 2 < x - of_int f then f + 1
      else if even f then f else f + 1)"

definition rne :: "rat \<Rightarrow> int" where
  "rne x = nearest x \<lfloor>x\<rfloor>"

text \<open>
  The exponent of the last place of a binary64 value of magnitude \<open>a\<close>: 53 significant
  bits, and never below the subnormal spacing \<open>2\<^sup>-\<^sup>1\<^sup>0\<^sup>7\<^sup>4\<close>.
\<close>

definition ulp_exp :: "rat \<Rightarrow> int" where
  "ulp_exp a = max (- 1074) (flog2 a - 52)"

text \<open>
  \<open>pack q v\<close> gives the magnitude \<open>v\<close> the sign of \<open>q\<close>; a magnitude of \<open>2\<^sup>1\<^sup>0\<^sup>2\<^sup>4\<close> or
  more overflows to an infinity.
\<close>

definition pack :: "rat \<Rightarrow> rat \<Rightarrow> float64" where
  "pack q v =
     (if pow2 1024 \<le> v then (if 0 < q then PInf else NInf)
      else Finite (if 0 < q then v else - v))"

definition round_at :: "rat \<Rightarrow> int \<Rightarrow> float64" where
  "round_at q e = pack q (of_int (rne (\<bar>q\<bar> / pow2 e)) * pow2 e)"

definition round64 :: "rat \<Rightarrow> float64" where
  "round64 q = (if q = 0 then Finite 0 else round_at q (ulp_exp \<bar>q\<bar>))"

fun fneg :: "float64 \<Rightarrow> float64" where
  "fneg (Finite a) = Finite (- a)"
| "fneg PInf = NInf"
| "fneg NInf = PInf"
| "fneg NaN = NaN"

fun fadd :: "float64 \<Rightarrow> float64 \<Rightarrow> float64" where
  "fadd (Finite a) (Finite b) = round64 (a + b)"
| "fadd NaN y = NaN"
| "fadd x NaN = NaN"
| "fadd PInf NInf = NaN"
| "fadd NInf PInf = NaN"
| "fadd PInf y = PInf"
| "fadd NInf y = NInf"
| "fadd x PInf = PInf"
| "fadd x NInf = NInf"

definition fsub :: "float64 \<Rightarrow> float64 \<Rightarrow> float64" where
  "fsub x y = fadd x (fneg y)"

text \<open>The sign of a value that is not NaN: \<open>1\<close>, \<open>0\<close> or \<open>-1\<close>.\<close>

fun fsgn :: "float64 \<Rightarrow> int" where
  "fsgn (Finite a) = (if 0 < a then 1 else if a < 0 then - 1 else 0)"
| "fsgn PInf = 1"
| "fsgn NInf = - 1"
| "fsgn NaN = 0"

fun fmul :: "float64 \<Rightarrow> float64 \<Rightarrow> float64" where
  "fmul (Finite a) (Finite b) = round64 (a * b)"
| "fmul NaN y = NaN"
| "fmul x NaN = NaN"
| "fmul x y =
     (let s = fsgn x * fsgn y
      in if s = 0 then NaN else if 0 < s then PInf else NInf)"

text \<open>
  Division as numpy does it: dividing by zero gives an infinity or NaN (with a
  warning), never an exception.
\<close>

fun fdiv :: "float64 \<Rightarrow> float64 \<Rightarrow> float64" where
  "fdiv NaN y = NaN"
| "fdiv x NaN = NaN"
| "fdiv (Finite a) (Finite b) =
     (if b = 0 then (if a = 0 then NaN else if 0 < a then PInf else NInf)
      else round64 (a / b))"
| "fdiv (Finite a) y = Finite 0"
| "fdiv x (Finite b) = (if (0 \<le> b) = (x = PInf) then PInf else NInf)"
| "fdiv x y = NaN"

text \<open>The integer square root, two bits at a time.\<close>

definition isqrt_step :: "int \<Rightarrow> int \<Rightarrow> int" where
  "isqrt_step n r = (if (r + 1) * (r + 1) \<le> n then r + 1 else r)"

function isqrt :: "int \<Rightarrow> int" where
  "isqrt n = (if n < 2 then n else isqrt_step n (2 * isqrt (n div 4)))"
  by pat_completeness auto
termination
  by (relation "measure nat") auto

declare isqrt.simps [simp del]

text \<open>
  The square root, correctly rounded: the significand is the integer nearest to
  \<open>sqrt t\<close> for \<open>t = a / 4\<^sup>e\<close>, found from the integer square root \<open>s\<close> of \<open>t\<close> and one
  comparison of \<open>t\<close> with the square of the midpoint \<open>s + 1/2\<close>.
\<close>

definition sqrt_pick :: "rat \<Rightarrow> int \<Rightarrow> rat \<Rightarrow> int" where
  "sqrt_pick t s h = (if t < h then s else if h < t then s + 1 else if even s then s else s + 1)"

definition sqrt_sig :: "rat \<Rightarrow> int \<Rightarrow> int" where
  "sqrt_sig t s = sqrt_pick t s ((of_int s + 1 / 2) * (of_int s + 1 / 2))"

definition sqrt_at :: "rat \<Rightarrow> int \<Rightarrow> rat" where
  "sqrt_at a e = of_int (sqrt_sig (a / pow2 (2 * e)) (isqrt \<lfloor>a / pow2 (2 * e)\<rfloor>)) * pow2 e"

definition sqrt64 :: "rat \<Rightarrow> rat" where
  "sqrt64 a = sqrt_at a (max (- 1074) (flog2 a div 2 - 52))"

fun fsqrt :: "float64 \<Rightarrow> float64" where
  "fsqrt (Finite a) = (if a < 0 then NaN else if a = 0 then Finite 0 else Finite (sqrt64 a))"
| "fsqrt PInf = PInf"
| "fsqrt NInf = NaN"
| "fsqrt NaN = NaN"

text \<open>Comparison: every comparison with NaN is false.\<close>

fun flt :: "float64 \<Rightarrow> float64 \<Rightarrow> bool" where
  "flt (Finite a) (Finite b) = (a < b)"
| "flt NaN y = False"
| "flt x NaN = False"
| "flt x NInf = False"
| "flt PInf y = False"
| "flt x y = True"

fun fle :: "float64 \<Rightarrow> float64 \<Rightarrow> bool" where
  "fle (Finite a) (Finite b) = (a \<le> b)"
| "fle NaN y = False"
| "fle x NaN = False"
| "fle NInf y = True"
| "fle x PInf = True"
| "fle x y = False"

definition isfinite :: "float64 \<Rightarrow> bool" where
  "isfinite x = (case x of Finite a \<Rightarrow> True | _ \<Rightarrow> False)"

text \<open>Python's \<^verbatim>\<open>float(n)\<close> of a non-negative integer.\<close>

definition float_of_nat :: "nat \<Rightarrow> float64" where
  "float_of_nat n = round64 (of_nat n)"

section \<open>The numpy reductions the program calls\<close>

text \<open>
  \<^verbatim>\<open>np.sum\<close> of a float64 array adds pairwise: fewer than 8 elements are added in order
  from zero; up to 128 elements are added in eight lanes (element \<open>i\<close> in lane
  \<open>i mod 8\<close>), the lanes are combined as a balanced tree and the elements past the last
  full group of eight are added in order; a longer array is split near its middle, at a
  multiple of eight.
\<close>

definition lane :: "float64 list \<Rightarrow> nat \<Rightarrow> float64" where
  "lane xs j = foldl fadd (xs ! j) (map (\<lambda>i. xs ! (8 * i + j)) [1 ..< length xs div 8])"

definition block_sum :: "float64 list \<Rightarrow> float64" where
  "block_sum xs =
     foldl fadd
       (fadd (fadd (fadd (lane xs 0) (lane xs 1)) (fadd (lane xs 2) (lane xs 3)))
             (fadd (fadd (lane xs 4) (lane xs 5)) (fadd (lane xs 6) (lane xs 7))))
       (drop (8 * (length xs div 8)) xs)"

definition split_at :: "nat \<Rightarrow> nat" where
  "split_at n = n div 2 - (n div 2) mod 8"

function pairwise_sum :: "float64 list \<Rightarrow> float64" where
  "pairwise_sum xs =
     (if length xs < 8 then foldl fadd (Finite 0) xs
      else if length xs \<le> 128 then block_sum xs
      else fadd (pairwise_sum (take (split_at (length xs)) xs))
                (pairwise_sum (drop (split_at (length xs)) xs)))"
  by pat_completeness auto
termination
  by (relation "measure length") (auto simp: split_at_def)

declare pairwise_sum.simps [simp del]

definition np_sum :: "float64 list \<Rightarrow> float64" where
  "np_sum xs = fadd (Finite 0) (pairwise_sum xs)"

text \<open>\<^verbatim>\<open>np.mean\<close>: the sum divided by the number of elements (NaN for an empty array).\<close>

definition np_mean :: "float64 list \<Rightarrow> float64" where
  "np_mean xs = fdiv (np_sum xs) (float_of_nat (length xs))"

text \<open>
  \<^verbatim>\<open>np.std\<close> with its default \<^verbatim>\<open>ddof=0\<close>: the square root of the mean of the squared
  deviations from the mean, the divisor being the number of elements.
\<close>

definition np_std :: "float64 list \<Rightarrow> float64" where
  "np_std xs =
     fsqrt (fdiv (np_sum (map (\<lambda>x. fmul (fsub x (np_mean xs)) (fsub x (np_mean xs))) xs))
                 (float_of_nat (length xs)))"

text \<open>\<^verbatim>\<open>np.minimum\<close> and \<^verbatim>\<open>np.maximum\<close> propagate NaN.\<close>

definition fmin :: "float64 \<Rightarrow> float64 \<Rightarrow> float64" where
  "fmin a b = (if a = NaN \<or> b = NaN then NaN else if fle a b then a else b)"

definition fmax :: "float64 \<Rightarrow> float64 \<Rightarrow> float64" where
  "fmax a b = (if a = NaN \<or> b = NaN then NaN else if fle b a then a else b)"

text \<open>
  \<^verbatim>\<open>np.min\<close> and \<^verbatim>\<open>np.max\<close> of a non-empty array; on an empty one numpy raises, which
  the callers below model before they call.
\<close>

fun np_min :: "float64 list \<Rightarrow> float64" where
  "np_min [] = NaN"
| "np_min (x # xs) = foldl fmin x xs"

fun np_max :: "float64 list \<Rightarrow> float64" where
  "np_max [] = NaN"
| "np_max (x # xs) = foldl fmax x xs"

section \<open>\<^verbatim>\<open>np.random.choice(n, k, replace=False)\<close>\<close>

text \<open>
  numpy draws without replacement by shuffling: \<^verbatim>\<open>choice\<close> returns
  \<^verbatim>\<open>permutation(n)[:k]\<close>, \<^verbatim>\<open>permutation(n)\<close> shuffles \<^verbatim>\<open>arange(n)\<close>, and the shuffle is
  \<^verbatim>\<open>for i in reversed(range(1, n)): j = random_interval(i); x[i], x[j] = x[j], x[i]\<close>.
  The generator is the function \<open>r\<close>: \<open>r i\<close> is what it gives at step \<open>i\<close> of the
  loop. \<^verbatim>\<open>random_interval(i)\<close> is a number from \<open>0\<close> to \<open>i\<close>, so a larger \<open>r i\<close> is
  read modulo \<open>i + 1\<close>: every function is a generator.
\<close>

definition random_interval :: "(nat \<Rightarrow> nat) \<Rightarrow> nat \<Rightarrow> nat" where
  "random_interval r i = r i mod (i + 1)"

definition swap_rows :: "nat \<Rightarrow> nat \<Rightarrow> 'a list \<Rightarrow> 'a list" where
  "swap_rows i j xs = xs[j := xs ! i, i := xs ! j]"

text \<open>\<open>shuffle r i xs\<close> runs the steps \<open>i\<close>, \<open>i - 1\<close>, \<dots>, \<open>1\<close> of the loop.\<close>

fun shuffle :: "(nat \<Rightarrow> nat) \<Rightarrow> nat \<Rightarrow> 'a list \<Rightarrow> 'a list" where
  "shuffle r 0 xs = xs"
| "shuffle r (Suc i) xs = shuffle r i (swap_rows (Suc i) (random_interval r (Suc i)) xs)"

definition permutation :: "(nat \<Rightarrow> nat) \<Rightarrow> nat \<Rightarrow> nat list" where
  "permutation r n = shuffle r (n - 1) [0 ..< n]"

text \<open>The program calls it with \<open>k < n\<close> only (with \<open>k > n\<close> numpy raises).\<close>

definition np_random_choice :: "(nat \<Rightarrow> nat) \<Rightarrow> nat \<Rightarrow> nat \<Rightarrow> nat list" where
  "np_random_choice r n k = take k (permutation r n)"

text \<open>
  The outcomes of the generator during one shuffle of \<open>n\<close> elements: for every step
  \<open>i\<close> from \<open>1\<close> to \<open>n - 1\<close> a number from \<open>0\<close> to \<open>i\<close>. numpy's generator gives each
  of them with the same probability.
\<close>

definition generators :: "nat \<Rightarrow> (nat \<Rightarrow> nat) set" where
  "generators n = (\<Pi>\<^sub>E i \<in> {1 ..< n}. {.. i})"

text \<open>A list of \<open>k\<close> different indices below \<open>n\<close>.\<close>

definition valid_choice :: "nat \<Rightarrow> nat \<Rightarrow> nat list \<Rightarrow> bool" where
  "valid_choice n k d = (length d = k \<and> distinct d \<and> list_all (\<lambda>i. i < n) d)"

section \<open>Strings and Python's \<^verbatim>\<open>float()\<close>\<close>

text \<open>
  The input is ASCII text. The whitespace of \<^verbatim>\<open>str.strip\<close> and \<^verbatim>\<open>str.split\<close> is then
  the characters 9 to 13, 28 to 31 and the space.
\<close>

definition isspace :: "char \<Rightarrow> bool" where
  "isspace c =
     (c \<in> set [CHR 0x09, CHR 0x0A, CHR 0x0B, CHR 0x0C, CHR 0x0D,
                CHR 0x1C, CHR 0x1D, CHR 0x1E, CHR 0x1F, CHR 0x20])"

definition str_strip :: "string \<Rightarrow> string" where
  "str_strip s = rev (dropWhile isspace (rev (dropWhile isspace s)))"

definition str_startswith :: "string \<Rightarrow> string \<Rightarrow> bool" where
  "str_startswith s p = (take (length p) s = p)"

text \<open>\<^verbatim>\<open>s.replace(',', ' ')\<close>.\<close>

definition replace_commas :: "string \<Rightarrow> string" where
  "replace_commas s = map (\<lambda>c. if c = CHR '','' then CHR '' '' else c) s"

text \<open>
  \<^verbatim>\<open>s.split()\<close>: the maximal runs of non-whitespace characters, in order. The first
  argument is the run read so far.
\<close>

fun split_from :: "string \<Rightarrow> string \<Rightarrow> string list" where
  "split_from w [] = (if w = [] then [] else [w])"
| "split_from w (c # cs) =
     (if isspace c then (if w = [] then split_from [] cs else w # split_from [] cs)
      else split_from (w @ [c]) cs)"

definition str_split :: "string \<Rightarrow> string list" where
  "str_split s = split_from [] s"

definition isdigit :: "char \<Rightarrow> bool" where
  "isdigit c = (48 \<le> (of_char c :: nat) \<and> (of_char c :: nat) \<le> 57)"

definition lower :: "char \<Rightarrow> char" where
  "lower c =
     (case map_of (zip ''ABCDEFGHIJKLMNOPQRSTUVWXYZ'' ''abcdefghijklmnopqrstuvwxyz'') c of
        Some d \<Rightarrow> d
      | None \<Rightarrow> c)"

text \<open>The value of a string of decimal digits; the first argument is the value so far.\<close>

fun digits_value :: "nat \<Rightarrow> string \<Rightarrow> nat" where
  "digits_value acc [] = acc"
| "digits_value acc (c # cs) = digits_value (10 * acc + (of_char c - 48)) cs"

text \<open>
  An underscore may stand only between two digits. The first argument is the
  character before the string (any non-digit at the start).
\<close>

fun underscores_ok :: "char \<Rightarrow> string \<Rightarrow> bool" where
  "underscores_ok prev [] = (prev \<noteq> CHR ''_'')"
| "underscores_ok prev (c # cs) =
     ((if c = CHR ''_'' then isdigit prev
       else (prev = CHR ''_'' \<longrightarrow> isdigit c)) \<and> underscores_ok c cs)"

text \<open>
  \<open>number ::= [digits] "." digits | digits ["."]\<close>: its digits as a natural number, and
  how many of them stand after the point.
\<close>

definition parse_number :: "string \<Rightarrow> (nat \<times> nat) option" where
  "parse_number s =
     (case dropWhile isdigit s of
        [] \<Rightarrow> if s = [] then None else Some (digits_value 0 s, 0)
      | c # fr \<Rightarrow>
          if c = CHR ''.'' \<and> list_all isdigit fr \<and> (takeWhile isdigit s \<noteq> [] \<or> fr \<noteq> [])
          then Some (digits_value 0 (takeWhile isdigit s @ fr), length fr)
          else None)"

text \<open>\<open>exponent ::= ("e" | "E") [sign] digits\<close>, given what follows the letter.\<close>

definition parse_exponent :: "string \<Rightarrow> int option" where
  "parse_exponent s =
     (case s of
        [] \<Rightarrow> None
      | c # cs \<Rightarrow>
          if c = CHR ''-'' then
            (if cs \<noteq> [] \<and> list_all isdigit cs then Some (- int (digits_value 0 cs)) else None)
          else if c = CHR ''+'' then
            (if cs \<noteq> [] \<and> list_all isdigit cs then Some (int (digits_value 0 cs)) else None)
          else if list_all isdigit s then Some (int (digits_value 0 s)) else None)"

definition pow10 :: "int \<Rightarrow> rat" where
  "pow10 e = (if 0 \<le> e then 10 ^ nat e else 1 / 10 ^ nat (- e))"

definition is_e :: "char \<Rightarrow> bool" where
  "is_e c = (c = CHR ''e'' \<or> c = CHR ''E'')"

text \<open>
  An unsigned decimal literal: the exact rational it denotes, or \<open>None\<close>. The literal is
  split at its first \<open>e\<close> or \<open>E\<close>.
\<close>

definition parse_decimal :: "string \<Rightarrow> rat option" where
  "parse_decimal s =
     (case parse_number (takeWhile (\<lambda>c. \<not> is_e c) s) of
        None \<Rightarrow> None
      | Some (m, f) \<Rightarrow>
          (case dropWhile (\<lambda>c. \<not> is_e c) s of
             [] \<Rightarrow> Some (of_nat m * pow10 (- int f))
           | e # ex \<Rightarrow>
               (case parse_exponent ex of
                  None \<Rightarrow> None
                | Some x \<Rightarrow> Some (of_nat m * pow10 (x - int f)))))"

text \<open>
  An unsigned float literal: \<^verbatim>\<open>inf\<close>, \<^verbatim>\<open>infinity\<close> or \<^verbatim>\<open>nan\<close> in any case, or a decimal
  literal, in which single underscores may separate digits; the decimal value is rounded
  to the nearest binary64 value.
\<close>

definition parse_unsigned :: "string \<Rightarrow> float64 option" where
  "parse_unsigned s =
     (if map lower s = ''inf'' \<or> map lower s = ''infinity'' then Some PInf
      else if map lower s = ''nan'' then Some NaN
      else if \<not> underscores_ok CHR '' '' s then None
      else map_option round64 (parse_decimal (filter (\<lambda>c. c \<noteq> CHR ''_'') s)))"

text \<open>
  \<^verbatim>\<open>float(s)\<close> for a string with no surrounding whitespace: \<open>None\<close> stands for the
  \<^verbatim>\<open>ValueError\<close> Python raises.
\<close>

definition py_float :: "string \<Rightarrow> float64 option" where
  "py_float s =
     (case s of
        [] \<Rightarrow> None
      | c # cs \<Rightarrow>
          if c = CHR ''-'' then map_option fneg (parse_unsigned cs)
          else if c = CHR ''+'' then parse_unsigned cs
          else parse_unsigned s)"

section \<open>Points, exceptions and console output\<close>

type_synonym point = "float64 \<times> float64 \<times> float64"

definition px :: "point \<Rightarrow> float64" where
  "px p = fst p"

definition py :: "point \<Rightarrow> float64" where
  "py p = fst (snd p)"

definition pz :: "point \<Rightarrow> float64" where
  "pz p = snd (snd p)"

definition finite_point :: "point \<Rightarrow> bool" where
  "finite_point p = (isfinite (px p) \<and> isfinite (py p) \<and> isfinite (pz p))"

text \<open>
  The exceptions of class \<^verbatim>\<open>Exception\<close>: \<^verbatim>\<open>ValueError\<close> with its message, and any
  other class (from the file system, the plotting or the document library) with its class
  name and message. \<open>str_of\<close> is Python's \<^verbatim>\<open>str(e)\<close>.
\<close>

datatype py_error = ValueError string | OtherError string string

fun str_of :: "py_error \<Rightarrow> string" where
  "str_of (ValueError m) = m"
| "str_of (OtherError c m) = m"

text \<open>
  One call of \<^verbatim>\<open>print\<close>: the text of the (f-)string as the source has it, with the values
  of its replacement fields; or the line \<^verbatim>\<open>prefix + json.dumps(dict)\<close>, with the
  dictionary as its list of keys and values.
\<close>

datatype fmt_arg = ArgStr string | ArgInt int | ArgFloat float64

datatype json = JBool bool | JString string | JInt int | JFloat float64

datatype console_line = Print string "fmt_arg list" | PrintJson string "(string \<times> json) list"

text \<open>
  A step of the program: what it printed on standard output, and the exception it raised
  or the value it returned.
\<close>

type_synonym 'a io = "console_line list \<times> (py_error + 'a)"

definition printed :: "'a io \<Rightarrow> console_line list" where
  "printed r = fst r"

definition result :: "'a io \<Rightarrow> py_error + 'a" where
  "result r = snd r"

definition and_then :: "'a io \<Rightarrow> ('a \<Rightarrow> 'b io) \<Rightarrow> 'b io" where
  "and_then r f =
     (case snd r of
        Inl e \<Rightarrow> (fst r, Inl e)
      | Inr a \<Rightarrow> (fst r @ fst (f a), snd (f a)))"

text \<open>
  What the program reads from outside: the lines of a file (or the exception that opening
  or reading it raises), what numpy's random generator gives during the draw of the
  nearest-neighbour step and during that of the 3D plot, the images matplotlib saves, the
  document reportlab builds, and the size of a file.
\<close>

type_synonym png = "nat list"

record stats =
  count :: nat
  x_min :: float64
  x_max :: float64
  y_min :: float64
  y_max :: float64
  z_min :: float64
  z_max :: float64
  x_extent :: float64
  y_extent :: float64
  z_extent :: float64
  x_mean :: float64
  y_mean :: float64
  z_mean :: float64
  x_std :: float64
  y_std :: float64
  z_std :: float64

record report =
  rep_stats :: stats
  avg_nn_distance :: float64
  histogram_buf :: png
  visualization_buf :: png
  original_filename :: string

record world =
  read_lines :: "string \<Rightarrow> py_error + string list"
  nn_random :: "nat \<Rightarrow> nat"
  vis_random :: "nat \<Rightarrow> nat"
  savefig_histogram :: "float64 list \<Rightarrow> nat \<Rightarrow> py_error + png"
  savefig_scatter :: "point list \<Rightarrow> nat \<Rightarrow> py_error + png"
  build_pdf :: "report \<Rightarrow> string \<Rightarrow> py_error + unit"
  getsize :: "string \<Rightarrow> py_error + nat"

text \<open>\<^verbatim>\<open>np.random.choice\<close> as the two steps that draw call it.\<close>

definition nn_choice :: "world \<Rightarrow> nat \<Rightarrow> nat \<Rightarrow> nat list" where
  "nn_choice w = np_random_choice (nn_random w)"

definition vis_choice :: "world \<Rightarrow> nat \<Rightarrow> nat \<Rightarrow> nat list" where
  "vis_choice w = np_random_choice (vis_random w)"

text \<open>
  A world for running examples: one file content under every path, a generator that
  leaves every element in its place (the draw is \<open>0, 1, \<dots>, k - 1\<close>), plots and a
  document that succeed, and an artifact of the given size.
\<close>

definition test_world :: "string list \<Rightarrow> nat \<Rightarrow> world" where
  "test_world lines n =
     \<lparr> read_lines = (\<lambda>path. Inr lines),
       nn_random = (\<lambda>i. i),
       vis_random = (\<lambda>i. i),
       savefig_histogram = (\<lambda>zs dpi. Inr []),
       savefig_scatter = (\<lambda>ps dpi. Inr []),
       build_pdf = (\<lambda>r path. Inr ()),
       getsize = (\<lambda>path. Inr n) \<rparr>"

text \<open>\<^verbatim>\<open>os.path.basename\<close>: what follows the last slash.\<close>

definition basename :: "string \<Rightarrow> string" where
  "basename p = rev (takeWhile (\<lambda>c. c \<noteq> CHR ''/'') (rev p))"

section \<open>\<^verbatim>\<open>parse_xyz_file\<close>\<close>

text \<open>
  One line of the file: \<open>None\<close> when the loop skips it (empty after stripping, a comment,
  fewer than three tokens, or a token among the first three that \<^verbatim>\<open>float\<close> refuses).
\<close>

definition parse_tokens :: "string list \<Rightarrow> point option" where
  "parse_tokens parts =
     (case parts of
        a # b # c # extra \<Rightarrow>
          (case py_float a of
             None \<Rightarrow> None
           | Some x \<Rightarrow>
               (case py_float b of
                  None \<Rightarrow> None
                | Some y \<Rightarrow>
                    (case py_float c of
                       None \<Rightarrow> None
                     | Some z \<Rightarrow> Some (x, y, z))))
      | _ \<Rightarrow> None)"

text \<open>\<^verbatim>\<open>parts = line.replace(',', ' ').split()\<close>, of the stripped line.\<close>

definition parts_of :: "string \<Rightarrow> string list" where
  "parts_of line = str_split (replace_commas (str_strip line))"

definition parse_line :: "string \<Rightarrow> point option" where
  "parse_line line =
     (if str_strip line = [] \<or> str_startswith (str_strip line) ''#'' then None
      else parse_tokens (parts_of line))"

fun parse_lines :: "string list \<Rightarrow> point list" where
  "parse_lines [] = []"
| "parse_lines (l # ls) =
     (case parse_line l of
        None \<Rightarrow> parse_lines ls
      | Some p \<Rightarrow> p # parse_lines ls)"

definition parse_xyz_file :: "world \<Rightarrow> string \<Rightarrow> (point list) io" where
  "parse_xyz_file w filepath =
     and_then ([Print ''[Parser] Reading file: {os.path.basename(filepath)}''
                  [ArgStr (basename filepath)]],
               read_lines w filepath)
       (\<lambda>lines.
          if length (parse_lines lines) = 0
          then ([], Inl (ValueError ''No valid points found in file''))
          else ([Print ''[Parser] Loaded {len(points_array)} points''
                   [ArgInt (int (length (parse_lines lines)))]],
                Inr (parse_lines lines)))"

section \<open>\<^verbatim>\<open>calculate_statistics\<close>\<close>

definition axis_stats :: "point list \<Rightarrow> stats" where
  "axis_stats points =
     \<lparr> count = length points,
       x_min = np_min (map px points),
       x_max = np_max (map px points),
       y_min = np_min (map py points),
       y_max = np_max (map py points),
       z_min = np_min (map pz points),
       z_max = np_max (map pz points),
       x_extent = fsub (np_max (map px points)) (np_min (map px points)),
       y_extent = fsub (np_max (map py points)) (np_min (map py points)),
       z_extent = fsub (np_max (map pz points)) (np_min (map pz points)),
       x_mean = np_mean (map px points),
       y_mean = np_mean (map py points),
       z_mean = np_mean (map pz points),
       x_std = np_std (map px points),
       y_std = np_std (map py points),
       z_std = np_std (map pz points) \<rparr>"

text \<open>On an array with no rows \<^verbatim>\<open>np.min\<close>, the first reduction, raises.\<close>

definition calculate_statistics :: "point list \<Rightarrow> stats io" where
  "calculate_statistics points =
     (if points = []
      then ([Print ''[Analysis] Calculating statistics...'' []],
            Inl (ValueError
              ''zero-size array to reduction operation minimum which has no identity''))
      else ([Print ''[Analysis] Calculating statistics...'' [],
             Print ''[Analysis] Total points: {stats['count']}'' [ArgInt (int (length points))]],
            Inr (axis_stats points)))"

section \<open>\<^verbatim>\<open>calculate_nearest_neighbor_distance\<close>\<close>

text \<open>\<^verbatim>\<open>points[indices]\<close>: an index past the end raises \<^verbatim>\<open>IndexError\<close>.\<close>

definition take_rows :: "'a list \<Rightarrow> nat list \<Rightarrow> py_error + 'a list" where
  "take_rows points indices =
     (if list_all (\<lambda>i. i < length points) indices then Inr (map (\<lambda>i. points ! i) indices)
      else Inl (OtherError ''IndexError'' ''index out of bounds''))"

text \<open>
  The working set of the nearest-neighbour step: the sample, or all points. \<open>choice\<close> is
  \<^verbatim>\<open>np.random.choice\<close> with \<^verbatim>\<open>replace=False\<close>; the program passes \<open>nn_choice w\<close>, that is
  \<open>np_random_choice\<close> of the generator.
\<close>

definition sample_points :: "(nat \<Rightarrow> nat \<Rightarrow> nat list) \<Rightarrow> point list \<Rightarrow> nat \<Rightarrow> (point list) io" where
  "sample_points choice points sample_size =
     (if length points > sample_size
      then and_then ([], take_rows points (choice (length points) sample_size))
             (\<lambda>rows. ([Print ''[Analysis] Using {sample_size} sampled points for NN calculation''
                          [ArgInt (int sample_size)]], Inr rows))
      else ([], Inr points))"

text \<open>
  scipy's \<^verbatim>\<open>cKDTree\<close>. The constructor refuses data with a NaN or an infinity. A query
  for the \<open>k = 2\<close> nearest neighbours of a point gives the two smallest Euclidean distances
  from it to the points of the tree in ascending order, a missing neighbour being an
  infinite distance. The squared distance is accumulated coordinate by coordinate and its
  square root is taken at the end.
\<close>

definition cKDTree :: "point list \<Rightarrow> py_error + point list" where
  "cKDTree data =
     (if list_all finite_point data then Inr data
      else Inl (ValueError ''data must be finite, check for nan or inf values''))"

definition sqdist :: "point \<Rightarrow> point \<Rightarrow> float64" where
  "sqdist u v =
     fadd (fadd (fmul (fsub (px u) (px v)) (fsub (px u) (px v)))
                (fmul (fsub (py u) (py v)) (fsub (py u) (py v))))
          (fmul (fsub (pz u) (pz v)) (fsub (pz u) (pz v)))"

text \<open>The two smallest of a list of distances; the pair starts as two missing neighbours.\<close>

definition keep2 :: "float64 \<times> float64 \<Rightarrow> float64 \<Rightarrow> float64 \<times> float64" where
  "keep2 b d =
     (if flt d (fst b) then (d, fst b) else if flt d (snd b) then (fst b, d) else b)"

definition query2 :: "point list \<Rightarrow> point \<Rightarrow> float64 \<times> float64" where
  "query2 tree x = foldl keep2 (PInf, PInf) (map (\<lambda>u. fsqrt (sqdist x u)) tree)"

definition nearest_distances :: "point list \<Rightarrow> float64 list" where
  "nearest_distances tree = map (\<lambda>x. snd (query2 tree x)) tree"

definition calculate_nearest_neighbor_distance ::
  "(nat \<Rightarrow> nat \<Rightarrow> nat list) \<Rightarrow> point list \<Rightarrow> nat \<Rightarrow> float64 io" where
  "calculate_nearest_neighbor_distance choice points sample_size =
     and_then ([Print ''[Analysis] Calculating nearest neighbor distance...'' []], Inr ())
       (\<lambda>u. and_then (sample_points choice points sample_size)
          (\<lambda>working. and_then ([], cKDTree working)
             (\<lambda>tree.
                ([Print ''[Analysis] Average nearest neighbor distance: {avg_distance:.4f}''
                    [ArgFloat (np_mean (nearest_distances tree))]],
                 Inr (np_mean (nearest_distances tree))))))"

section \<open>The plots and the document\<close>

definition create_z_histogram :: "world \<Rightarrow> point list \<Rightarrow> nat \<Rightarrow> png io" where
  "create_z_histogram w points dpi =
     and_then ([Print ''[Visualization] Creating Z-histogram...'' []],
               savefig_histogram w (map pz points) dpi)
       (\<lambda>buf. ([Print ''[Visualization] Z-histogram created'' []], Inr buf))"

text \<open>The points the 3D plot draws: at most 50000, sampled when there are more.\<close>

definition vis_points :: "world \<Rightarrow> point list \<Rightarrow> (point list) io" where
  "vis_points w points =
     (if length points > 50000
      then and_then ([], take_rows points (vis_choice w (length points) 50000))
             (\<lambda>rows. ([Print ''[Visualization] Downsampled to 50,000 points for visualization''
                          []], Inr rows))
      else ([], Inr points))"

definition create_3d_visualization :: "world \<Rightarrow> point list \<Rightarrow> nat \<Rightarrow> png io" where
  "create_3d_visualization w points dpi =
     and_then ([Print ''[Visualization] Creating 3D point cloud visualization...'' []], Inr ())
       (\<lambda>u. and_then (vis_points w points)
          (\<lambda>vis. and_then ([], savefig_scatter w vis dpi)
             (\<lambda>buf. ([Print ''[Visualization] 3D visualization created'' []], Inr buf))))"

text \<open>
  \<^verbatim>\<open>os.path.getsize(path) / (1024 * 1024)\<close>: the quotient of two integers, correctly
  rounded.
\<close>

definition mb_of_bytes :: "nat \<Rightarrow> float64" where
  "mb_of_bytes n = round64 (of_nat n / 1048576)"

definition generate_pdf_report ::
  "world \<Rightarrow> point list \<Rightarrow> stats \<Rightarrow> float64 \<Rightarrow> png \<Rightarrow> png \<Rightarrow> string \<Rightarrow> string \<Rightarrow> string io" where
  "generate_pdf_report w points st avg hist vis output_path filename =
     and_then ([Print ''[Report] Generating PDF report...'' []],
               build_pdf w \<lparr> rep_stats = st, avg_nn_distance = avg, histogram_buf = hist,
                              visualization_buf = vis, original_filename = filename \<rparr>
                 output_path)
       (\<lambda>u. and_then ([], getsize w output_path)
          (\<lambda>n.
             ([Print ''[Report] PDF generated successfully: {output_path}'' [ArgStr output_path],
               Print ''[Report] File size: {file_size_mb:.2f} MB'' [ArgFloat (mb_of_bytes n)]]
              @ (if flt (Finite 2) (mb_of_bytes n)
                 then [Print ''[Report] WARNING: File size exceeds 2 MB limit!'' []] else []),
              Inr output_path)))"

section \<open>\<^verbatim>\<open>main\<close>\<close>

text \<open>
  Python's \<^verbatim>\<open>round(x, 2)\<close>: the decimal with two places nearest to the exact value of
  \<open>x\<close> (a tie to the even last digit), then the binary64 value nearest to that decimal.
\<close>

fun py_round2 :: "float64 \<Rightarrow> float64" where
  "py_round2 (Finite q) = round64 (of_int (rne (q * 100)) / 100)"
| "py_round2 x = x"

definition rule60 :: string where
  "rule60 = replicate 60 (CHR ''='')"

text \<open>The body of the \<^verbatim>\<open>try\<close> statement, to the line that prints the result.\<close>

definition try_body :: "world \<Rightarrow> string \<Rightarrow> string \<Rightarrow> unit io" where
  "try_body w input_file output_file =
     and_then (parse_xyz_file w input_file)
       (\<lambda>points. and_then (calculate_statistics points)
       (\<lambda>st. and_then (calculate_nearest_neighbor_distance (nn_choice w) points 1000)
       (\<lambda>avg. and_then (create_z_histogram w points 120)
       (\<lambda>hist. and_then (create_3d_visualization w points 120)
       (\<lambda>vis. and_then
                 (generate_pdf_report w points st avg hist vis output_file (basename input_file))
       (\<lambda>path. and_then
                 ([Print rule60 [], Print ''REPORT GENERATION COMPLETED SUCCESSFULLY'' [],
                   Print (rule60 @ [CHR 0x0A]) []],
                  getsize w output_file)
       (\<lambda>n.
          ([PrintJson ''JSON_RESULT:''
              [(''success'', JBool True),
               (''output_file'', JString output_file),
               (''file_size_mb'', JFloat (py_round2 (mb_of_bytes n))),
               (''point_count'', JInt (int (count st)))]],
           Inr ()))))))))"

record outcome =
  stdout :: "console_line list"
  stderr :: "console_line list"
  exit_status :: nat

text \<open>
  \<open>argv\<close> is \<^verbatim>\<open>sys.argv\<close>: the script's name, then the arguments. A run that ends without
  \<^verbatim>\<open>sys.exit\<close> has exit status 0.
\<close>

definition main :: "world \<Rightarrow> string list \<Rightarrow> outcome" where
  "main w argv =
     (if length argv < 3
      then \<lparr> stdout = [Print ''Usage: python generate_report.py <input_file> <output_file>'' []],
             stderr = [], exit_status = 1 \<rparr>
      else
        (case result (try_body w (argv ! 1) (argv ! 2)) of
           Inr u \<Rightarrow>
             \<lparr> stdout =
                 [Print (CHR 0x0A # rule60) [],
                  Print ''POINT CLOUD ANALYSIS AND REPORT GENERATION'' [],
                  Print rule60 []]
                 @ printed (try_body w (argv ! 1) (argv ! 2)),
               stderr = [], exit_status = 0 \<rparr>
         | Inl e \<Rightarrow>
             \<lparr> stdout =
                 [Print (CHR 0x0A # rule60) [],
                  Print ''POINT CLOUD ANALYSIS AND REPORT GENERATION'' [],
                  Print rule60 []]
                 @ printed (try_body w (argv ! 1) (argv ! 2))
                 @ [PrintJson ''JSON_RESULT:''
                      [(''success'', JBool False), (''error'', JString (str_of e))]],
               stderr = [Print ''ERROR: {str(e)}'' [ArgStr (str_of e)]],
               exit_status = 1 \<rparr>))"

text \<open>The structured results among the lines printed.\<close>

fun is_result :: "console_line \<Rightarrow> bool" where
  "is_result (PrintJson prefix d) = (prefix = ''JSON_RESULT:'')"
| "is_result (Print t args) = False"

definition results_of :: "console_line list \<Rightarrow> (string \<times> json) list list" where
  "results_of ls = concat (map (\<lambda>l. case l of PrintJson p d \<Rightarrow> [d] | Print t args \<Rightarrow> []) (filter is_result ls))"

text \<open>A step that prints no structured result.\<close>

definition quiet :: "'a io \<Rightarrow> bool" where
  "quiet r = (filter is_result (printed r) = [])"

section \<open>Inputs of the examples\<close>

definition example_lines :: "string list" where
  "example_lines = [''0 0 0'', ''1 0 0'', ''0 1 0'', ''# comment'', [], ''bad data here'']"

definition example_points :: "point list" where
  "example_points =
     [(Finite 0, Finite 0, Finite 0), (Finite 1, Finite 0, Finite 0),
      (Finite 0, Finite 1, Finite 0)]"

definition line_points :: "point list" where
  "line_points =
     [(Finite 0, Finite 0, Finite 0), (Finite 1, Finite 0, Finite 0),
      (Finite 3, Finite 0, Finite 0)]"

text \<open>The example world, with an output path that cannot be written.\<close>

definition locked_world :: world where
  "locked_world =
     (test_world example_lines 0)
       \<lparr> build_pdf := \<lambda>r path. Inl (OtherError ''PermissionError''
                                       ''[Errno 13] Permission denied'') \<rparr>"

section \<open>Facts about the arithmetic\<close>

lemma floor_rat_divide_numeral [simp]:
  "\<lfloor>numeral a / numeral b :: rat\<rfloor> = numeral a div numeral b"
  by (metis floor_divide_of_int_eq of_int_numeral)

lemmas round64_eval =
  round64_def round_at_def pack_def ulp_exp_def flog2_def neg_log_def pow2_def rne_def
  nearest_def bitlen.simps

lemmas sqrt64_eval =
  sqrt64_def sqrt_at_def sqrt_sig_def sqrt_pick_def isqrt_step_def isqrt.simps flog2_def
  neg_log_def pow2_def bitlen.simps

lemmas float_eval =
  py_float_def parse_unsigned_def parse_decimal_def parse_exponent_def parse_number_def
  pow10_def is_e_def isdigit_def lower_def

lemmas line_eval =
  parse_line_def parse_tokens_def parts_of_def isspace_def str_strip_def str_split_def
  str_startswith_def replace_commas_def

lemmas io_eval = result_def printed_def and_then_def

lemma round64_0: "round64 0 = Finite 0"
  by (simp add: round64_def)

lemma round64_1: "round64 1 = Finite 1"
  by (simp add: round64_eval)

lemma round64_2: "round64 2 = Finite 2"
  by (simp add: round64_eval)

lemma round64_3: "round64 3 = Finite 3"
  by (simp add: round64_eval)

lemma round64_m1: "round64 (- 1) = Finite (- 1)"
  by (simp add: round64_eval)

lemma sqrt64_1: "sqrt64 1 = 1"
  by (simp add: sqrt64_eval)

lemma sqrt64_2: "sqrt64 2 = 6369051672525773 / 4503599627370496"
  by (simp add: sqrt64_eval)

lemmas small_eval =
  round64_0 round64_1 round64_2 round64_3 round64_m1 sqrt64_1 sqrt64_2 fsub_def
  float_of_nat_def px_def py_def pz_def

lemmas np_eval = np_mean_def np_std_def np_sum_def pairwise_sum.simps

section \<open>The end-to-end example\<close>

lemma parse_example_lines: "parse_lines example_lines = example_points"
  by (simp add: example_lines_def example_points_def line_eval float_eval round64_0 round64_1)

lemma example_nearest: "nearest_distances example_points = [Finite 1, Finite 1, Finite 1]"
  by (simp add: example_points_def nearest_distances_def query2_def keep2_def sqdist_def
      small_eval)

lemma example_mean: "np_mean [Finite 1, Finite 1, Finite 1] = Finite 1"
  by (simp add: np_eval small_eval)

lemma example_finite: "list_all finite_point example_points"
  by (simp add: example_points_def finite_point_def isfinite_def small_eval)

text \<open>
  C1. The file with the lines \<^verbatim>\<open>0 0 0\<close>, \<^verbatim>\<open>1 0 0\<close>, \<^verbatim>\<open>0 1 0\<close>, \<^verbatim>\<open># comment\<close>, an empty line
  and \<^verbatim>\<open>bad data here\<close> is parsed to exactly the three points; the statistics have
  \<open>x_extent = 1.0\<close>, \<open>y_extent = 1.0\<close> and \<open>z_extent = 0.0\<close>; and the average
  nearest-neighbour distance is exactly \<open>1.0\<close> (whatever the random generator would draw:
  three points are not sampled).
\<close>

theorem C1_end_to_end_example:
  "result (parse_xyz_file (w\<lparr>read_lines := \<lambda>path. Inr example_lines\<rparr>) f) = Inr example_points
   \<and> length example_points = 3
   \<and> result (calculate_statistics example_points) = Inr (axis_stats example_points)
   \<and> count (axis_stats example_points) = 3
   \<and> x_extent (axis_stats example_points) = Finite 1
   \<and> y_extent (axis_stats example_points) = Finite 1
   \<and> z_extent (axis_stats example_points) = Finite 0
   \<and> result (calculate_nearest_neighbor_distance choice example_points 1000) = Inr (Finite 1)"
proof -
  have parse: "result (parse_xyz_file (w\<lparr>read_lines := \<lambda>path. Inr example_lines\<rparr>) f)
      = Inr example_points"
    by (simp add: parse_xyz_file_def io_eval parse_example_lines) (simp add: example_points_def)
  have len: "length example_points = 3"
    by (simp add: example_points_def)
  have st: "result (calculate_statistics example_points) = Inr (axis_stats example_points)"
    by (simp add: calculate_statistics_def io_eval) (simp add: example_points_def)
  have ext: "x_extent (axis_stats example_points) = Finite 1
      \<and> y_extent (axis_stats example_points) = Finite 1
      \<and> z_extent (axis_stats example_points) = Finite 0"
    by (simp add: axis_stats_def example_points_def fmin_def fmax_def small_eval)
  have nn: "result (calculate_nearest_neighbor_distance choice example_points 1000)
      = Inr (Finite 1)"
    using example_finite
    by (simp add: calculate_nearest_neighbor_distance_def sample_points_def cKDTree_def
        io_eval len example_nearest example_mean)
  show ?thesis
    using parse len st ext nn by (simp add: axis_stats_def)
qed

section \<open>The parser rejects a file without points\<close>

lemma parse_tokens_None:
  "parse_tokens ts = None \<longleftrightarrow> (length ts < 3 \<or> (\<exists>t \<in> set (take 3 ts). py_float t = None))"
  by (auto simp: parse_tokens_def split: list.splits option.splits)

lemma parse_line_None:
  "parse_line l = None \<longleftrightarrow>
     (str_strip l = [] \<or> str_startswith (str_strip l) ''#'' \<or> length (parts_of l) < 3
      \<or> (\<exists>t \<in> set (take 3 (parts_of l)). py_float t = None))"
  by (simp add: parse_line_def parse_tokens_None)

lemma parse_lines_Nil: "parse_lines ls = [] \<longleftrightarrow> (\<forall>l \<in> set ls. parse_line l = None)"
  by (induction ls) (auto split: option.splits)

lemma result_and_then:
  "result (and_then r f) = (case result r of Inl e \<Rightarrow> Inl e | Inr a \<Rightarrow> result (f a))"
  by (simp add: io_eval split: sum.splits)

lemma parse_xyz_file_result:
  "result (parse_xyz_file w f) =
     (case read_lines w f of
        Inl e \<Rightarrow> Inl e
      | Inr lines \<Rightarrow>
          if parse_lines lines = [] then Inl (ValueError ''No valid points found in file'')
          else Inr (parse_lines lines))"
  by (simp add: parse_xyz_file_def io_eval split: sum.splits)

text \<open>
  C5, as the code has it. When every line of the file is blank, a comment, has fewer than
  three tokens, or has a token among its first three that \<^verbatim>\<open>float\<close> refuses, parsing
  raises \<^verbatim>\<open>ValueError("No valid points found in file")\<close>; and parsing never returns an
  empty point set. (The claim names the error \<^verbatim>\<open>ParseError("no valid points")\<close>: the
  exception the code raises has another class and another message.)
\<close>

theorem C5_no_valid_points:
  assumes "read_lines w f = Inr lines"
  shows "((\<forall>l \<in> set lines.
            str_strip l = [] \<or> str_startswith (str_strip l) ''#'' \<or> length (parts_of l) < 3
            \<or> (\<exists>t \<in> set (take 3 (parts_of l)). py_float t = None))
          \<longrightarrow> result (parse_xyz_file w f) = Inl (ValueError ''No valid points found in file''))
         \<and> result (parse_xyz_file w f) \<noteq> Inr []"
  using assms by (auto simp: parse_xyz_file_result parse_lines_Nil parse_line_None)

theorem C5_witness:
  "result (parse_xyz_file
      (test_world [''# header'', ''   '', ''1.5 2'', ''x y z'', ''1,2,oops''] 0) ''cloud.xyz'')
     = Inl (ValueError ''No valid points found in file'')"
proof -
  have r: "read_lines (test_world [''# header'', ''   '', ''1.5 2'', ''x y z'', ''1,2,oops''] 0)
      ''cloud.xyz'' = Inr [''# header'', ''   '', ''1.5 2'', ''x y z'', ''1,2,oops'']"
    by (simp add: test_world_def)
  have h: "\<forall>l \<in> set [''# header'', ''   '', ''1.5 2'', ''x y z'', ''1,2,oops''].
            str_strip l = [] \<or> str_startswith (str_strip l) ''#'' \<or> length (parts_of l) < 3
            \<or> (\<exists>t \<in> set (take 3 (parts_of l)). py_float t = None)"
    by (simp add: line_eval float_eval)
  from C5_no_valid_points [OF r] h show ?thesis by blast
qed

text \<open>
  The claim as stated fails on a file that holds one comment: the message of the error
  is not \<^verbatim>\<open>no valid points\<close>.
\<close>

theorem C5_counterexample:
  "result (parse_xyz_file (test_world [''# only a comment''] 0) ''cloud.xyz'')
     = Inl (ValueError ''No valid points found in file'')
   \<and> str_of (ValueError ''No valid points found in file'') \<noteq> ''no valid points''"
  by (simp add: parse_xyz_file_result test_world_def line_eval)

section \<open>The draw without replacement\<close>

lemma random_interval_le: "random_interval r i \<le> i"
  by (simp add: random_interval_def less_Suc_eq_le [symmetric])

lemma length_swap_rows [simp]: "length (swap_rows i j xs) = length xs"
  by (simp add: swap_rows_def)

lemma mset_swap_rows: "i < length xs \<Longrightarrow> j < length xs \<Longrightarrow> mset (swap_rows i j xs) = mset xs"
  by (simp add: swap_rows_def mset_swap)

lemma length_shuffle [simp]: "length (shuffle r i xs) = length xs"
  by (induction i arbitrary: xs) simp_all

lemma mset_shuffle: "i < length xs \<Longrightarrow> mset (shuffle r i xs) = mset xs"
proof (induction i arbitrary: xs)
  case 0
  then show ?case by simp
next
  case (Suc i)
  have "random_interval r (Suc i) < length xs"
    using random_interval_le [of r "Suc i"] Suc.prems by linarith
  with Suc show ?case
    by (simp add: mset_swap_rows)
qed

lemma mset_permutation: "mset (permutation r n) = mset [0 ..< n]"
  by (cases n) (simp_all add: permutation_def mset_shuffle)

lemma length_permutation [simp]: "length (permutation r n) = n"
  by (simp add: permutation_def)

lemma distinct_permutation: "distinct (permutation r n)"
  by (metis distinct_upt mset_eq_imp_distinct_iff mset_permutation)

lemma set_permutation: "set (permutation r n) = {..< n}"
  by (metis mset_permutation set_mset_mset set_upt atLeast0LessThan)

lemma np_random_choice_valid: "k \<le> n \<Longrightarrow> valid_choice n k (np_random_choice r n k)"
  using set_permutation [of r n]
  by (auto simp: valid_choice_def np_random_choice_def distinct_permutation list_all_iff
      dest: in_set_takeD)

lemma shuffle_untouched: "i < p \<Longrightarrow> p < length xs \<Longrightarrow> shuffle r i xs ! p = xs ! p"
proof (induction i arbitrary: xs)
  case 0
  then show ?case by simp
next
  case (Suc i)
  have "random_interval r (Suc i) \<le> Suc i"
    by (rule random_interval_le)
  with Suc.prems have "swap_rows (Suc i) (random_interval r (Suc i)) xs ! p = xs ! p"
    by (simp add: swap_rows_def)
  with Suc show ?case
    by simp
qed

lemma swap_rows_nth_i: "i < length xs \<Longrightarrow> j < length xs \<Longrightarrow> swap_rows i j xs ! i = xs ! j"
  by (simp add: swap_rows_def)

lemma shuffle_inj:
  assumes "distinct xs" and "i < length xs"
    and "\<forall>j \<in> {1 .. i}. r j \<le> j \<and> r' j \<le> j"
    and "shuffle r i xs = shuffle r' i xs"
  shows "\<forall>j \<in> {1 .. i}. r j = r' j"
  using assms
proof (induction i arbitrary: xs)
  case 0
  then show ?case by simp
next
  case (Suc i)
  let ?j = "random_interval r (Suc i)" and ?j' = "random_interval r' (Suc i)"
  have "r (Suc i) \<le> Suc i" "r' (Suc i) \<le> Suc i"
    using Suc.prems(3) by auto
  then have jr: "?j = r (Suc i)" "?j' = r' (Suc i)"
    by (simp_all add: random_interval_def)
  have lt: "?j < length xs" "?j' < length xs"
    using random_interval_le [of r "Suc i"] random_interval_le [of r' "Suc i"] Suc.prems(2)
    by linarith+
  have "shuffle r (Suc i) xs ! Suc i = xs ! ?j"
    using Suc.prems(2) lt by (simp add: shuffle_untouched swap_rows_nth_i)
  moreover have "shuffle r' (Suc i) xs ! Suc i = xs ! ?j'"
    using Suc.prems(2) lt by (simp add: shuffle_untouched swap_rows_nth_i)
  ultimately have "xs ! ?j = xs ! ?j'"
    using Suc.prems(4) by simp
  with Suc.prems(1) lt have eq: "?j = ?j'"
    by (simp add: nth_eq_iff_index_eq)
  have d: "distinct (swap_rows (Suc i) ?j xs)"
    using Suc.prems(1,2) lt(1) by (metis mset_swap_rows mset_eq_imp_distinct_iff)
  have "\<forall>j \<in> {1 .. i}. r j = r' j"
    using Suc.prems eq d by (intro Suc.IH [of "swap_rows (Suc i) ?j xs"]) simp_all
  with eq jr show ?case
    by (auto simp: le_Suc_eq)
qed

lemma permutation_inj: "inj_on (\<lambda>r. permutation r n) (generators n)"
proof (rule inj_onI)
  fix r r' assume r: "r \<in> generators n" and r': "r' \<in> generators n"
    and eq: "permutation r n = permutation r' n"
  show "r = r'"
  proof (cases "n \<le> 1")
    case True
    with r r' show ?thesis
      by (simp add: generators_def)
  next
    case False
    have "\<forall>j \<in> {1 .. n - 1}. r j \<le> j \<and> r' j \<le> j"
      using r r' by (auto simp: generators_def PiE_def Pi_def)
    with False eq have "\<forall>j \<in> {1 .. n - 1}. r j = r' j"
      by (intro shuffle_inj [of "[0 ..< n]"]) (simp_all add: permutation_def)
    then have "\<forall>j \<in> {1 ..< n}. r j = r' j"
      by auto
    with r r' show ?thesis
      unfolding generators_def by (intro PiE_ext) auto
  qed
qed

lemma card_generators: "card (generators n) = fact n"
proof -
  have "card (generators n) = (\<Prod>i \<in> {1 ..< n}. card {.. i})"
    unfolding generators_def by (rule card_PiE) simp
  also have "\<dots> = (\<Prod>i \<in> {1 ..< n}. Suc i)"
    by simp
  also have "\<dots> = fact n"
    by (induction n) (simp_all add: prod.atLeastLessThan_Suc le_Suc_eq)
  finally show ?thesis .
qed

lemma permutation_image:
  "(\<lambda>r. permutation r n) ` generators n = {p. length p = n \<and> distinct p \<and> set p \<subseteq> {..< n}}"
proof (rule card_subset_eq)
  show "finite {p. length p = n \<and> distinct p \<and> set p \<subseteq> {..< n}}"
    by (rule finite_subset [OF _ finite_lists_length_eq [of "{..< n}" n]]) auto
  show "(\<lambda>r. permutation r n) ` generators n \<subseteq> {p. length p = n \<and> distinct p \<and> set p \<subseteq> {..< n}}"
    by (auto simp: distinct_permutation set_permutation)
  have "card {p. length p = n \<and> distinct p \<and> set p \<subseteq> {..< n}} = \<Prod>{card {..< n} - n + 1 .. card {..< n}}"
    by (rule card_lists_distinct_length_eq) simp_all
  then have "card {p. length p = n \<and> distinct p \<and> set p \<subseteq> {..< n}} = fact n"
    by (simp add: fact_prod)
  then show "card ((\<lambda>r. permutation r n) ` generators n)
      = card {p. length p = n \<and> distinct p \<and> set p \<subseteq> {..< n}}"
    by (simp add: card_image permutation_inj card_generators)
qed

lemma identity_permutation: "permutation (\<lambda>i. i) n = [0 ..< n]"
proof -
  have "shuffle (\<lambda>i. i) i xs = xs" for i and xs :: "nat list"
    by (induction i) (simp_all add: random_interval_def swap_rows_def)
  then show ?thesis
    by (simp add: permutation_def)
qed

lemma card_with_prefix:
  assumes "valid_choice n k d" and "k \<le> n"
  shows "card {p. length p = n \<and> distinct p \<and> set p \<subseteq> {..< n} \<and> take k p = d} = fact (n - k)"
proof -
  let ?A = "{..< n} - set d"
  let ?Q = "{q. length q = n - k \<and> distinct q \<and> set q \<subseteq> ?A}"
  have d: "length d = k" "distinct d" "set d \<subseteq> {..< n}"
    using assms(1) by (auto simp: valid_choice_def list_all_iff)
  have "{p. length p = n \<and> distinct p \<and> set p \<subseteq> {..< n} \<and> take k p = d} = (\<lambda>q. d @ q) ` ?Q"
    (is "?P = _")
  proof
    show "?P \<subseteq> (\<lambda>q. d @ q) ` ?Q"
    proof
      fix p assume "p \<in> ?P"
      then have p: "length p = n" "distinct p" "set p \<subseteq> {..< n}" "take k p = d"
        by auto
      have split: "p = d @ drop k p"
        using p(4) by (metis append_take_drop_id)
      then have "distinct (d @ drop k p)" "set (d @ drop k p) \<subseteq> {..< n}"
        using p(2,3) by simp_all
      then have "drop k p \<in> ?Q"
        using p(1) by auto
      with split show "p \<in> (\<lambda>q. d @ q) ` ?Q"
        by blast
    qed
    show "(\<lambda>q. d @ q) ` ?Q \<subseteq> ?P"
    proof
      fix p assume "p \<in> (\<lambda>q. d @ q) ` ?Q"
      then obtain q where q: "p = d @ q" "length q = n - k" "distinct q" "set q \<subseteq> ?A"
        by blast
      have "set d \<inter> set q = {}"
        using q(4) by blast
      with q d assms(2) show "p \<in> ?P"
        by auto
    qed
  qed
  moreover have "inj_on (\<lambda>q. d @ q) ?Q"
    by (simp add: inj_on_def)
  moreover have "card ?Q = \<Prod>{card ?A - (n - k) + 1 .. card ?A}"
    using d by (intro card_lists_distinct_length_eq) (simp_all add: card_Diff_subset distinct_card)
  moreover have "card ?A = n - k"
    using d by (simp add: card_Diff_subset distinct_card)
  ultimately show ?thesis
    by (simp add: card_image fact_prod)
qed

text \<open>
  Every list of \<open>k\<close> different indices below \<open>n\<close> is the draw of exactly \<open>(n - k)!\<close> of the
  \<open>n!\<close> outcomes of the generator.
\<close>

lemma draws_of_a_choice:
  assumes "valid_choice n k d" and "k \<le> n"
  shows "card {r \<in> generators n. np_random_choice r n k = d} = fact (n - k)"
proof -
  let ?G = "{r \<in> generators n. np_random_choice r n k = d}"
  have "(\<lambda>r. permutation r n) ` ?G
      = {p. length p = n \<and> distinct p \<and> set p \<subseteq> {..< n} \<and> take k p = d}" (is "_ = ?P")
  proof
    show "(\<lambda>r. permutation r n) ` ?G \<subseteq> ?P"
      by (auto simp: np_random_choice_def distinct_permutation set_permutation)
    show "?P \<subseteq> (\<lambda>r. permutation r n) ` ?G"
    proof
      fix p assume p: "p \<in> ?P"
      then have "p \<in> (\<lambda>r. permutation r n) ` generators n"
        by (simp add: permutation_image)
      then obtain r where "r \<in> generators n" "p = permutation r n"
        by blast
      with p show "p \<in> (\<lambda>r. permutation r n) ` ?G"
        by (auto simp: np_random_choice_def)
    qed
  qed
  moreover have "inj_on (\<lambda>r. permutation r n) ?G"
    by (rule inj_on_subset [OF permutation_inj]) auto
  ultimately have "card ?G = card {p. length p = n \<and> distinct p \<and> set p \<subseteq> {..< n} \<and> take k p = d}"
    using card_image [of "\<lambda>r. permutation r n" ?G] by simp
  then show ?thesis
    by (simp add: card_with_prefix [OF assms])
qed

section \<open>The nearest-neighbour step\<close>

lemma round64_4: "round64 4 = Finite 4"
  by (simp add: round64_eval)

lemma round64_m2: "round64 (- 2) = Finite (- 2)"
  by (simp add: round64_eval)

lemma sqrt64_4: "sqrt64 4 = 2"
  by (simp add: sqrt64_eval)

lemma fsub_self: "fsub (Finite a) (Finite a) = Finite 0"
  by (simp add: fsub_def round64_0)

lemma sqdist_self: "finite_point p \<Longrightarrow> sqdist p p = Finite 0"
  by (cases p)
    (auto simp: finite_point_def isfinite_def px_def py_def pz_def sqdist_def fsub_self
      round64_0 split: float64.splits)

lemma nearest_single: "finite_point p \<Longrightarrow> nearest_distances [p] = [PInf]"
  by (simp add: nearest_distances_def query2_def keep2_def sqdist_self)

lemma np_mean_PInf: "np_mean [PInf] = PInf"
  by (simp add: np_eval float_of_nat_def round64_1)

lemma sample_points_result:
  "result (sample_points choice points k) =
     (if length points > k then take_rows points (choice (length points) k) else Inr points)"
  by (simp add: sample_points_def result_and_then split: sum.splits) (simp add: result_def)

lemma nn_result:
  "result (calculate_nearest_neighbor_distance choice points k) =
     (case result (sample_points choice points k) of
        Inl e \<Rightarrow> Inl e
      | Inr ws \<Rightarrow>
          if list_all finite_point ws then Inr (np_mean (nearest_distances ws))
          else Inl (ValueError ''data must be finite, check for nan or inf values''))"
  by (simp add: calculate_nearest_neighbor_distance_def result_and_then cKDTree_def
        split: sum.splits) (simp add: result_def)

lemma mset_rows_subset:
  assumes "distinct d" and "list_all (\<lambda>i. i < length xs) d"
  shows "image_mset ((!) xs) (mset d) \<subseteq># mset xs"
proof -
  have "set d \<subseteq> {..<length xs}"
    using assms(2) by (auto simp: list_all_iff)
  then have "mset_set (set d) \<subseteq># mset_set {..<length xs}"
    by simp
  then have "mset d \<subseteq># mset [0 ..< length xs]"
    using assms(1) by (simp add: mset_set_set mset_set_upto_eq_mset_upto)
  then have "image_mset ((!) xs) (mset d) \<subseteq># image_mset ((!) xs) (mset [0 ..< length xs])"
    by (rule image_mset_subseteq_mono)
  moreover have "image_mset ((!) xs) (mset [0 ..< length xs]) = mset xs"
    by (metis map_nth mset_map)
  ultimately show ?thesis
    by simp
qed

text \<open>
  C2, as the code has it. When the working set of the nearest-neighbour step is exactly
  one point (with finite coordinates, so that the spatial index accepts it), the step
  raises nothing: the query for two neighbours finds the point itself and marks the
  missing second neighbour with an infinite distance, and the step returns their mean,
  positive infinity.
\<close>

theorem C2_single_point_working_set:
  assumes "result (sample_points choice points k) = Inr [p]" and "finite_point p"
  shows "result (calculate_nearest_neighbor_distance choice points k) = Inr PInf"
  using assms by (simp add: nn_result nearest_single np_mean_PInf)

theorem C2_witness:
  "result (calculate_nearest_neighbor_distance (\<lambda>n k. [1])
      [(Finite 0, Finite 0, Finite 0), (Finite 1, Finite 2, Finite 3)] 1) = Inr PInf"
proof -
  have a: "result (sample_points (\<lambda>n k. [1])
      [(Finite 0, Finite 0, Finite 0), (Finite 1, Finite 2, Finite 3)] 1)
      = Inr [(Finite 1, Finite 2, Finite 3)]"
    by (simp add: sample_points_result take_rows_def)
  have b: "finite_point (Finite 1, Finite 2, Finite 3)"
    by (simp add: finite_point_def isfinite_def px_def py_def pz_def)
  from C2_single_point_working_set [OF a b] show ?thesis .
qed

text \<open>
  The claim as stated fails on the point set that holds the origin alone: the step
  returns a number, infinity, and no error.
\<close>

theorem C2_counterexample:
  "result (calculate_nearest_neighbor_distance (\<lambda>n k. [0 ..< k])
      [(Finite 0, Finite 0, Finite 0)] 1000) = Inr PInf"
  by (simp add: nn_result sample_points_result nearest_single np_mean_PInf finite_point_def
      isfinite_def px_def py_def pz_def)

text \<open>
  C4, as the code has it. The step has no seed parameter: it draws from numpy's global
  generator. Its result is a function of the points, the sample size and the indices
  drawn: two runs on the same input give the same average when nothing is drawn (no more
  points than the sample size) or when the generator returns the same indices.
\<close>

theorem C4_result_is_a_function_of_the_draw:
  assumes "length points \<le> k \<or> c1 (length points) k = c2 (length points) k"
  shows "result (calculate_nearest_neighbor_distance c1 points k)
       = result (calculate_nearest_neighbor_distance c2 points k)"
  using assms by (auto simp: nn_result sample_points_result)

theorem C4_witness:
  "result (calculate_nearest_neighbor_distance (\<lambda>n k. [0 ..< k]) line_points 1000)
     = result (calculate_nearest_neighbor_distance (\<lambda>n k. rev [0 ..< k]) line_points 1000)"
proof -
  have "length line_points \<le> 1000"
    by (simp add: line_points_def)
  with C4_result_is_a_function_of_the_draw
    [of line_points 1000 "\<lambda>n k. [0 ..< k]" "\<lambda>n k. rev [0 ..< k]"]
  show ?thesis
    by blast
qed

text \<open>
  The claim as stated fails: the same three points on a line, sampled down to two, have
  the average \<open>1.0\<close> when the generator draws the first two and \<open>2.0\<close> when it draws the
  last two; and no argument of the step fixes the draw.
\<close>

theorem C4_counterexample:
  "result (calculate_nearest_neighbor_distance (\<lambda>n k. [0, 1]) line_points 2) = Inr (Finite 1)
   \<and> result (calculate_nearest_neighbor_distance (\<lambda>n k. [1, 2]) line_points 2) = Inr (Finite 2)"
  by (simp add: nn_result sample_points_result take_rows_def line_points_def finite_point_def
      isfinite_def nearest_distances_def query2_def keep2_def sqdist_def np_eval
      small_eval round64_4 round64_m2 sqrt64_4)

text \<open>
  C7. \<open>try_body\<close> calls the step with the sample size 1000 and \<open>nn_choice w\<close>, which is
  \<open>np_random_choice\<close> of the generator. For every sample size \<open>k\<close> and every generator:
  with more than \<open>k\<close> points the working set is the rows at the indices drawn, which are
  exactly \<open>k\<close> different positions of the point set, so a sub-multiset of the points (a
  draw without replacement); otherwise it is all the points. The draw is uniform: the
  shuffle has \<open>N!\<close> equally likely outcomes, and every list of \<open>k\<close> different positions is
  the draw of the same number, \<open>(N - k)!\<close>, of them.
\<close>

theorem C7_working_set:
  "nn_choice w = np_random_choice (nn_random w)
   \<and> (k < length points \<longrightarrow>
        result (sample_points (np_random_choice r) points k)
          = Inr (map (\<lambda>i. points ! i) (np_random_choice r (length points) k))
        \<and> length (map (\<lambda>i. points ! i) (np_random_choice r (length points) k)) = k
        \<and> distinct (np_random_choice r (length points) k)
        \<and> list_all (\<lambda>i. i < length points) (np_random_choice r (length points) k)
        \<and> mset (map (\<lambda>i. points ! i) (np_random_choice r (length points) k)) \<subseteq># mset points)
   \<and> (length points \<le> k \<longrightarrow> result (sample_points (np_random_choice r) points k) = Inr points)
   \<and> card (generators (length points)) = fact (length points)
   \<and> (\<forall>d. k < length points \<and> valid_choice (length points) k d \<longrightarrow>
          card {g \<in> generators (length points). np_random_choice g (length points) k = d}
            = fact (length points - k))"
proof (intro conjI impI allI)
  show "nn_choice w = np_random_choice (nn_random w)"
    by (simp add: nn_choice_def)
next
  assume a: "k < length points"
  then have v: "valid_choice (length points) k (np_random_choice r (length points) k)"
    by (simp add: np_random_choice_valid)
  then show "result (sample_points (np_random_choice r) points k)
      = Inr (map (\<lambda>i. points ! i) (np_random_choice r (length points) k))"
    using a by (simp add: sample_points_result take_rows_def valid_choice_def)
  from v show "length (map (\<lambda>i. points ! i) (np_random_choice r (length points) k)) = k"
    by (simp add: valid_choice_def)
  from v show "distinct (np_random_choice r (length points) k)"
    by (simp add: valid_choice_def)
  from v show "list_all (\<lambda>i. i < length points) (np_random_choice r (length points) k)"
    by (simp add: valid_choice_def)
  from v show "mset (map (\<lambda>i. points ! i) (np_random_choice r (length points) k)) \<subseteq># mset points"
    by (simp add: valid_choice_def mset_rows_subset)
next
  assume "length points \<le> k"
  then show "result (sample_points (np_random_choice r) points k) = Inr points"
    by (simp add: sample_points_result)
next
  show "card (generators (length points)) = fact (length points)"
    by (rule card_generators)
next
  fix d
  assume "k < length points \<and> valid_choice (length points) k d"
  then show "card {g \<in> generators (length points). np_random_choice g (length points) k = d}
      = fact (length points - k)"
    by (simp add: draws_of_a_choice)
qed

lemma upt_3: "[0 ..< 3] = [0, 1, 2]"
  by (simp add: upt_conv_Cons)

lemma choice_of_zeros: "np_random_choice (\<lambda>i. 0) 3 2 = [1, 2]"
proof -
  have "shuffle (\<lambda>i. 0) (Suc (Suc 0)) [0, 1, 2 :: nat] = [1, 2, 0]"
    by (simp add: random_interval_def swap_rows_def)
  moreover have "(3::nat) - 1 = Suc (Suc 0)"
    by simp
  ultimately have "permutation (\<lambda>i. 0) 3 = [1, 2, 0]"
    by (simp only: permutation_def upt_3)
  then show ?thesis
    by (simp add: np_random_choice_def)
qed


theorem C7_witness:
  "result (sample_points (np_random_choice (\<lambda>i. 0)) line_points 2)
     = Inr [(Finite 1, Finite 0, Finite 0), (Finite 3, Finite 0, Finite 0)]
   \<and> result (sample_points (np_random_choice (\<lambda>i. 0)) line_points 1000) = Inr line_points
   \<and> card {g \<in> generators 3. np_random_choice g 3 2 = [1, 2]} = 1"
proof -
  have len: "length line_points = 3"
    by (simp add: line_points_def)
  have v: "valid_choice 3 2 [1, 2]"
    by (simp add: valid_choice_def)
  have "result (sample_points (np_random_choice (\<lambda>i. 0)) line_points 2)
      = Inr (map (\<lambda>i. line_points ! i) [1, 2])"
    using C7_working_set [of w 2 line_points "\<lambda>i. 0"] by (simp add: len choice_of_zeros)
  moreover have "result (sample_points (np_random_choice (\<lambda>i. 0)) line_points 1000) = Inr line_points"
    using C7_working_set [of w 1000 line_points "\<lambda>i. 0"] by (simp add: len)
  moreover have "card {g \<in> generators 3. np_random_choice g 3 2 = [1, 2]} = 1"
    using C7_working_set [of w 2 line_points "\<lambda>i. 0"] v by (simp add: len)
  ultimately show ?thesis
    by (simp add: line_points_def)
qed

section \<open>The orchestrator\<close>

lemma printed_and_then:
  "printed (and_then r f) =
     printed r @ (case result r of Inl e \<Rightarrow> [] | Inr a \<Rightarrow> printed (f a))"
  by (simp add: io_eval split: sum.splits)

lemma quiet_and_then:
  "quiet r \<Longrightarrow> (\<And>a. result r = Inr a \<Longrightarrow> quiet (f a)) \<Longrightarrow> quiet (and_then r f)"
  by (simp add: quiet_def printed_and_then split: sum.splits)

lemma quiet_pair: "filter is_result ls = [] \<Longrightarrow> quiet (ls, x)"
  by (simp add: quiet_def printed_def)

lemma quiet_parse: "quiet (parse_xyz_file w f)"
  unfolding parse_xyz_file_def by (intro quiet_and_then quiet_pair) (auto simp: quiet_def printed_def)

lemma quiet_stats: "quiet (calculate_statistics ps)"
  by (simp add: calculate_statistics_def quiet_def printed_def)

lemma quiet_sample: "quiet (sample_points c ps k)"
  unfolding sample_points_def by (auto intro!: quiet_and_then quiet_pair)

lemma quiet_nn: "quiet (calculate_nearest_neighbor_distance c ps k)"
  unfolding calculate_nearest_neighbor_distance_def
  by (intro quiet_and_then quiet_pair quiet_sample) auto

lemma quiet_hist: "quiet (create_z_histogram w ps d)"
  unfolding create_z_histogram_def by (intro quiet_and_then quiet_pair) auto

lemma quiet_vis_points: "quiet (vis_points w ps)"
  unfolding vis_points_def by (auto intro!: quiet_and_then quiet_pair)

lemma quiet_vis: "quiet (create_3d_visualization w ps d)"
  unfolding create_3d_visualization_def
  by (intro quiet_and_then quiet_pair quiet_vis_points) auto

lemma quiet_report: "quiet (generate_pdf_report w ps st a h v out fn)"
  unfolding generate_pdf_report_def by (intro quiet_and_then quiet_pair) auto


lemmas quiet_stages = quiet_parse quiet_stats quiet_nn quiet_hist quiet_vis quiet_report

lemma try_body_failure:
  assumes "result (try_body w i out) = Inl e"
  shows "filter is_result (printed (try_body w i out)) = []"
  using assms quiet_stages [unfolded quiet_def]
  by (auto simp: try_body_def result_and_then printed_and_then split: sum.splits) (auto simp: io_eval)


lemma results_of_append: "results_of (a @ b) = results_of a @ results_of b"
  by (simp add: results_of_def)

lemma results_of_filter: "results_of ls = results_of (filter is_result ls)"
  by (simp add: results_of_def)

lemma rule60_eval: "rule60 = ''============================================================''"
  by (simp add: rule60_def eval_nat_numeral)

text \<open>
  C3, as the code has it. With fewer than two arguments the program prints the usage line
  with a plain \<^verbatim>\<open>print\<close>, that is on standard output; it prints nothing on standard error,
  exits with status 1, and reads nothing: the outcome is the same in every world.
\<close>

theorem C3_usage:
  assumes "length argv < 3"
  shows "main w argv =
           \<lparr> stdout = [Print ''Usage: python generate_report.py <input_file> <output_file>'' []],
             stderr = [], exit_status = 1 \<rparr>"
  using assms by (simp add: main_def)

text \<open>
  C8. Whatever exception the body of the \<^verbatim>\<open>try\<close> statement raises (from parsing, the
  statistics, the nearest-neighbour step, the plots, the document or the size of the
  artifact), \<open>main\<close> ends with an outcome: standard output holds exactly one structured
  result, with \<open>success = false\<close> and the message of the exception, the message is also
  printed on standard error, and the exit status is 1.
\<close>

theorem C8_failure_is_reported:
  assumes "3 \<le> length argv" and "result (try_body w (argv ! 1) (argv ! 2)) = Inl e"
  shows "results_of (stdout (main w argv))
           = [[(''success'', JBool False), (''error'', JString (str_of e))]]
         \<and> stderr (main w argv) = [Print ''ERROR: {str(e)}'' [ArgStr (str_of e)]]
         \<and> exit_status (main w argv) = 1"
proof -
  have "results_of (printed (try_body w (argv ! 1) (argv ! 2))) = []"
    using try_body_failure [OF assms(2)] results_of_filter [of "printed (try_body w (argv ! 1) (argv ! 2))"]
    by (simp add: results_of_def)
  with assms show ?thesis
    by (simp add: main_def results_of_append) (simp add: results_of_def)
qed




lemma vis_points_result:
  "result (vis_points w points) =
     (if length points > 50000 then take_rows points (vis_choice w (length points) 50000)
      else Inr points)"
  by (simp add: vis_points_def result_and_then split: sum.splits) (simp add: result_def)






lemma try_body_result:
  "result (try_body w i out) =
     (case result (parse_xyz_file w i) of
        Inl e \<Rightarrow> Inl e
      | Inr points \<Rightarrow>
     (case result (calculate_statistics points) of
        Inl e \<Rightarrow> Inl e
      | Inr st \<Rightarrow>
     (case result (calculate_nearest_neighbor_distance (nn_choice w) points 1000) of
        Inl e \<Rightarrow> Inl e
      | Inr avg \<Rightarrow>
     (case result (create_z_histogram w points 120) of
        Inl e \<Rightarrow> Inl e
      | Inr hist \<Rightarrow>
     (case result (create_3d_visualization w points 120) of
        Inl e \<Rightarrow> Inl e
      | Inr vis \<Rightarrow>
     (case result (generate_pdf_report w points st avg hist vis out (basename i)) of
        Inl e \<Rightarrow> Inl e
      | Inr path \<Rightarrow>
     (case getsize w out of
        Inl e \<Rightarrow> Inl e
      | Inr n \<Rightarrow> Inr ())))))))"
  by (simp add: try_body_def result_and_then split: sum.splits) (auto simp: result_def)

lemma hist_result:
  "result (create_z_histogram w points dpi) = savefig_histogram w (map pz points) dpi"
  by (simp add: create_z_histogram_def result_and_then split: sum.splits) (simp add: result_def)

lemma vis_result:
  "result (create_3d_visualization w points dpi) =
     (case result (vis_points w points) of
        Inl e \<Rightarrow> Inl e
      | Inr vis \<Rightarrow> savefig_scatter w vis dpi)"
  by (simp add: create_3d_visualization_def result_and_then split: sum.splits)
    (simp add: result_def)

lemma report_result:
  "result (generate_pdf_report w points st avg hist vis out fn) =
     (case build_pdf w \<lparr> rep_stats = st, avg_nn_distance = avg, histogram_buf = hist,
                          visualization_buf = vis, original_filename = fn \<rparr> out of
        Inl e \<Rightarrow> Inl e
      | Inr u \<Rightarrow> (case getsize w out of Inl e \<Rightarrow> Inl e | Inr n \<Rightarrow> Inr out))"
  by (simp add: generate_pdf_report_def result_and_then split: sum.splits)
    (simp add: result_def)

lemma stats_result_eq:
  "points \<noteq> [] \<Longrightarrow> result (calculate_statistics points) = Inr (axis_stats points)"
  by (simp add: calculate_statistics_def result_def)



lemma locked_run:
  "result (try_body locked_world i out)
     = Inl (OtherError ''PermissionError'' ''[Errno 13] Permission denied'')"
proof -
  have p: "result (parse_xyz_file locked_world i) = Inr example_points"
    by (simp add: parse_xyz_file_result locked_world_def test_world_def parse_example_lines)
      (simp add: example_points_def)
  have ne: "example_points \<noteq> []"
    by (simp add: example_points_def)
  have len: "length example_points = 3"
    by (simp add: example_points_def)
  have nn: "result (calculate_nearest_neighbor_distance (nn_choice locked_world) example_points 1000)
      = Inr (np_mean (nearest_distances example_points))"
    using example_finite by (simp add: nn_result sample_points_result len)
  have h: "result (create_z_histogram locked_world example_points 120) = Inr []"
    by (simp add: hist_result locked_world_def test_world_def)
  have v: "result (create_3d_visualization locked_world example_points 120) = Inr []"
    by (simp add: vis_result vis_points_result len locked_world_def test_world_def)
  have r: "result (generate_pdf_report locked_world example_points st avg hist vis out fn)
      = Inl (OtherError ''PermissionError'' ''[Errno 13] Permission denied'')" for st avg hist vis fn
    by (simp add: report_result locked_world_def test_world_def)
  show ?thesis
    by (simp add: try_body_result p stats_result_eq [OF ne] nn h v r)
qed

theorem C3_witness:
  "main (test_world example_lines 0) [''generate_report.py'', ''cloud.xyz'']
     = \<lparr> stdout = [Print ''Usage: python generate_report.py <input_file> <output_file>'' []],
         stderr = [], exit_status = 1 \<rparr>"
proof -
  have "length [''generate_report.py'', ''cloud.xyz''] < 3"
    by simp
  from C3_usage [OF this] show ?thesis .
qed

theorem C8_witness:
  "results_of (stdout (main locked_world [''generate_report.py'', ''cloud.xyz'', ''report.pdf'']))
     = [[(''success'', JBool False), (''error'', JString ''[Errno 13] Permission denied'')]]
   \<and> exit_status (main locked_world [''generate_report.py'', ''cloud.xyz'', ''report.pdf'']) = 1"
proof -
  have a: "3 \<le> length [''generate_report.py'', ''cloud.xyz'', ''report.pdf'']"
    by simp
  from C8_failure_is_reported [OF a locked_run] show ?thesis
    by simp
qed



end
